theory Spec2Isabelle
  imports Main
begin

section \<open>Python values used by \<open>api/main.py\<close>\<close>

text \<open>
  A Python \<open>str\<close> is a sequence of Unicode code points, so it is modelled as a list of
  natural numbers (one per code point), not as a list of 8-bit characters. The string
  literals of the source are written as Isabelle literals and converted by \<open>lit\<close>.
\<close>

type_synonym py_str = "nat list"

definition lit :: "string \<Rightarrow> py_str" where
  "lit s = map of_char s"

text \<open>
  \<open>str.isspace\<close> on one code point: the code points CPython treats as whitespace
  (bidirectional class WS, B or S, or category Zs). \<open>str.strip()\<close> without argument
  removes exactly these from both ends.
\<close>

definition isspace :: "nat \<Rightarrow> bool" where
  "isspace c =
     ((0x09 \<le> c \<and> c \<le> 0x0D) \<or> (0x1C \<le> c \<and> c \<le> 0x20) \<or> c = 0x85 \<or> c = 0xA0 \<or>
      c = 0x1680 \<or> (0x2000 \<le> c \<and> c \<le> 0x200A) \<or> c = 0x2028 \<or> c = 0x2029 \<or>
      c = 0x202F \<or> c = 0x205F \<or> c = 0x3000)"

definition strip :: "py_str \<Rightarrow> py_str" where
  "strip s = rev (dropWhile isspace (rev (dropWhile isspace s)))"

text \<open>
  A number literal is kept as written: \<open>Decimal m e\<close> stands for \<open>m * 10 ^ e\<close>. No
  arithmetic is done on it anywhere in the program.
\<close>

datatype decimal = Decimal int int

datatype json =
    JNull
  | JBool bool
  | JNumber decimal
  | JString py_str
  | JArray "json list"
  | JObject "(py_str \<times> json) list"

text \<open>
  The exceptions that can be raised inside the \<open>try\<close> block of \<open>ask_assistant\<close>, and the
  \<open>RuntimeError\<close> of module initialisation. \<open>ProviderException cls text\<close> is any exception
  raised by the provider client (class name and raw error text: network failure,
  authentication failure, rate limit, timeout); every one of them derives from
  \<open>Exception\<close>, which is what the \<open>except\<close> clause catches.
\<close>

datatype py_exception =
    ProviderException py_str py_str
  | IndexError
  | AttributeError
  | RuntimeError py_str

section \<open>Module initialisation (lines 35 to 42)\<close>

type_synonym environ = "py_str \<rightharpoonup> py_str"

definition os_getenv :: "environ \<Rightarrow> py_str \<Rightarrow> py_str option" where
  "os_getenv env k = env k"

record OpenAI =
  api_key :: py_str

record app_state =
  openai_client :: OpenAI

text \<open>
  \<open>env\<close> is the process environment as \<open>os.getenv\<close> sees it on line 37, after
  \<open>load_dotenv()\<close> has run. \<open>not OPENAI_API_KEY\<close> holds for \<open>None\<close> and for the empty string.
  The routes are registered after this point (lines 53 and 59), so a raise here leaves
  no application object.
\<close>

definition module_init :: "environ \<Rightarrow> py_exception + app_state" where
  "module_init env =
     (let OPENAI_API_KEY = os_getenv env (lit ''OPENAI_API_KEY'') in
      case OPENAI_API_KEY of
        None \<Rightarrow>
          Inl (RuntimeError (lit ''OPENAI_API_KEY not set in environment. Please add it to your .env file.''))
      | Some k \<Rightarrow>
          if k = [] then
            Inl (RuntimeError (lit ''OPENAI_API_KEY not set in environment. Please add it to your .env file.''))
          else Inr \<lparr>openai_client = \<lparr>api_key = k\<rparr>\<rparr>)"

section \<open>Request and response models (lines 45 to 51)\<close>

record AssistantRequest =
  message :: py_str

record AssistantResponse =
  answer :: py_str

section \<open>The completion provider\<close>

record chat_message =
  role :: py_str
  content :: py_str

record create_kwargs =
  model :: py_str
  messages :: "chat_message list"
  max_tokens :: int
  temperature :: decimal

record ChatCompletionMessage =
  msg_content :: "py_str option"

record Choice =
  choice_message :: ChatCompletionMessage

record ChatCompletion =
  choices :: "Choice list"

text \<open>
  The provider client is an external collaborator: one operation,
  \<open>chat.completions.create\<close>, that given the configured client and the keyword arguments
  either raises or returns a completion. It is a parameter of the model.
\<close>

type_synonym provider = "OpenAI \<Rightarrow> create_kwargs \<Rightarrow> py_exception + ChatCompletion"

section \<open>The handlers (lines 53 to 91)\<close>

definition health_check :: json where
  "health_check = JObject [(lit ''message'', JString (lit ''Healthy''))]"

record HTTPException =
  status_code :: nat
  detail :: py_str
  cause :: "py_exception option"

definition HTTP_502_BAD_GATEWAY :: nat where
  "HTTP_502_BAD_GATEWAY = 502"

text \<open>The keyword arguments of the call on lines 75 to 83.\<close>

definition completion_kwargs :: "AssistantRequest \<Rightarrow> create_kwargs" where
  "completion_kwargs request =
     \<lparr>model = lit ''gpt-3.5-turbo'',
      messages =
        [\<lparr>role = lit ''system'',
          content = lit ''You are the helpful AI assistant for an online Tic Tac Toe game. Answer rules, strategies, and give helpful, friendly advice for the game.''\<rparr>,
         \<lparr>role = lit ''user'', content = message request\<rparr>],
      max_tokens = 256,
      temperature = Decimal 7 (- 1)\<rparr>"

text \<open>
  The body of the \<open>try\<close> block (lines 75 to 85). \<open>response.choices[0]\<close> raises
  \<open>IndexError\<close> on an empty list, and \<open>.strip()\<close> on a \<open>None\<close> content raises
  \<open>AttributeError\<close>. The second component is the log of provider calls made.
\<close>

definition ask_assistant_try ::
  "OpenAI \<Rightarrow> provider \<Rightarrow> AssistantRequest \<Rightarrow> (py_exception + AssistantResponse) \<times> create_kwargs list"
where
  "ask_assistant_try client create request =
     (let kwargs = completion_kwargs request in
      (case create client kwargs of
         Inl e \<Rightarrow> Inl e
       | Inr response \<Rightarrow>
           (case choices response of
              [] \<Rightarrow> Inl IndexError
            | c # _ \<Rightarrow>
                (case msg_content (choice_message c) of
                   None \<Rightarrow> Inl AttributeError
                 | Some t \<Rightarrow> Inr \<lparr>answer = strip t\<rparr>)),
       [kwargs]))"

text \<open>
  The whole handler: \<open>except Exception as e\<close> turns every exception of the body into
  the one \<open>HTTPException\<close>, raised \<open>from e\<close>.
\<close>

definition ask_assistant ::
  "OpenAI \<Rightarrow> provider \<Rightarrow> AssistantRequest \<Rightarrow> (HTTPException + AssistantResponse) \<times> create_kwargs list"
where
  "ask_assistant client create request =
     (case ask_assistant_try client create request of
        (Inl e, calls) \<Rightarrow>
          (Inl \<lparr>status_code = HTTP_502_BAD_GATEWAY,
                detail = lit ''Failed to get a response from the assistant. Please try again later.'',
                cause = Some e\<rparr>, calls)
      | (Inr r, calls) \<Rightarrow> (Inr r, calls))"

section \<open>The request-schema boundary and the HTTP surface\<close>

text \<open>
  The request model (lines 45 to 47) declares one field, \<open>message: str = Field(...)\<close>:
  required, annotated \<open>str\<close>, and with no further constraint (no minimum length). The
  layer that enforces the declaration and turns handler results into HTTP responses
  (FastAPI with pydantic) is not in the source.
\<close>

datatype validation_error =
    MissingBody
  | NotAnObject
  | MissingField py_str
  | NotAString py_str

fun message_field :: "json \<Rightarrow> json option" where
  "message_field (JObject kvs) = map_of (rev kvs) (lit ''message'')"
| "message_field _ = None"

fun is_JObject :: "json \<Rightarrow> bool" where
  "is_JObject (JObject _) = True"
| "is_JObject _ = False"

fun is_JString :: "json \<Rightarrow> bool" where
  "is_JString (JString _) = True"
| "is_JString _ = False"

text \<open>
  Modelled from the spec: the validation of a request body against \<open>AssistantRequest\<close>,
  done by the schema layer before the handler runs. The body is \<open>None\<close> when it is absent
  or is not JSON. It is accepted when it is an object whose \<open>message\<close> is a string, of any
  length, as the declaration has no length constraint; a missing or mistyped \<open>message\<close> is
  a validation error. A repeated key of a JSON object keeps its last value, as Python's
  \<open>json\<close> module does.
\<close>

definition validate_AssistantRequest :: "json option \<Rightarrow> validation_error + AssistantRequest" where
  "validate_AssistantRequest b =
     (case b of
        None \<Rightarrow> Inl MissingBody
      | Some j \<Rightarrow>
          if is_JObject j then
            (case message_field j of
               None \<Rightarrow> Inl (MissingField (lit ''message''))
             | Some (JString s) \<Rightarrow> Inr \<lparr>message = s\<rparr>
             | Some _ \<Rightarrow> Inl (NotAString (lit ''message'')))
          else Inl NotAnObject)"

datatype response_body = JSONBody json | ValidationDetail validation_error

record http_response =
  status :: nat
  body :: response_body

text \<open>
  Modelled from the spec: how the framework renders a raised \<open>HTTPException\<close> (its status
  code and the body \<open>{"detail": detail}\<close>; the cause is not part of the response) and a
  returned \<open>AssistantResponse\<close> (the body \<open>{"answer": answer}\<close>).
\<close>

definition http_exception_response :: "HTTPException \<Rightarrow> http_response" where
  "http_exception_response h =
     \<lparr>status = status_code h, body = JSONBody (JObject [(lit ''detail'', JString (detail h))])\<rparr>"

definition assistant_response_json :: "AssistantResponse \<Rightarrow> json" where
  "assistant_response_json r = JObject [(lit ''answer'', JString (answer r))]"

text \<open>The two registered routes: \<open>GET /\<close> and \<open>POST /assistant\<close> with its body.\<close>

datatype http_request = GET_root | POST_assistant "json option"

text \<open>
  Modelled from the spec: the dispatch of one request against the initialised
  application, giving the response and the log of provider calls made while handling it.
  \<open>GET /\<close> runs \<open>health_check\<close> (status 200); \<open>POST /assistant\<close> validates the body, answers
  a validation error with status 422 and its detail without running the handler, and
  otherwise runs \<open>ask_assistant\<close> (status 200 on return).
\<close>

definition handle :: "app_state \<Rightarrow> provider \<Rightarrow> http_request \<Rightarrow> http_response \<times> create_kwargs list" where
  "handle app create req =
     (case req of
        GET_root \<Rightarrow> (\<lparr>status = 200, body = JSONBody health_check\<rparr>, [])
      | POST_assistant b \<Rightarrow>
          (case validate_AssistantRequest b of
             Inl err \<Rightarrow> (\<lparr>status = 422, body = ValidationDetail err\<rparr>, [])
           | Inr request \<Rightarrow>
               (case ask_assistant (openai_client app) create request of
                  (Inl h, calls) \<Rightarrow> (http_exception_response h, calls)
                | (Inr r, calls) \<Rightarrow>
                    (\<lparr>status = 200, body = JSONBody (assistant_response_json r)\<rparr>, calls))))"

text \<open>
  The process as a whole: a request is served only by a module that initialised; if
  initialisation raised, there is no application and the outcome is that exception.
\<close>

definition serve ::
  "environ \<Rightarrow> provider \<Rightarrow> http_request \<Rightarrow> py_exception + (http_response \<times> create_kwargs list)"
where
  "serve env create req =
     (case module_init env of
        Inl e \<Rightarrow> Inl e
      | Inr app \<Rightarrow> Inr (handle app create req))"

abbreviation UPSTREAM_DETAIL :: py_str where
  "UPSTREAM_DETAIL \<equiv> lit ''Failed to get a response from the assistant. Please try again later.''"

abbreviation upstream_unavailable :: http_response where
  "upstream_unavailable \<equiv>
     \<lparr>status = 502, body = JSONBody (JObject [(lit ''detail'', JString UPSTREAM_DETAIL)])\<rparr>"

section \<open>Scenarios\<close>

definition sample_app :: app_state where
  "sample_app = \<lparr>openai_client = \<lparr>api_key = lit ''sk-test-key''\<rparr>\<rparr>"

definition rules_body :: "json option" where
  "rules_body = Some (JObject [(lit ''message'', JString (lit ''What are the rules of tic tac toe?''))])"

definition completion_of :: "py_str option \<Rightarrow> ChatCompletion" where
  "completion_of t = \<lparr>choices = [\<lparr>choice_message = \<lparr>msg_content = t\<rparr>\<rparr>]\<rparr>"

definition rules_provider :: provider where
  "rules_provider client kwargs =
     Inr (completion_of (Some (lit ''  Tic tac toe is played on a 3x3 grid...  '')))"

definition timeout_provider :: provider where
  "timeout_provider client kwargs =
     Inl (ProviderException (lit ''APITimeoutError'') (lit ''Request timed out.''))"

definition empty_choices_provider :: provider where
  "empty_choices_provider client kwargs = Inr \<lparr>choices = []\<rparr>"

definition null_content_provider :: provider where
  "null_content_provider client kwargs = Inr (completion_of None)"

definition blank_provider :: provider where
  "blank_provider client kwargs = Inr (completion_of (Some (lit '' '' @ [0x0A, 0x3000, 0x09])))"

text \<open>A provider whose error text quotes the API key it was called with.\<close>

definition auth_error_provider :: provider where
  "auth_error_provider client kwargs =
     Inl (ProviderException (lit ''AuthenticationError'')
            (lit ''Incorrect API key provided: '' @ api_key client))"

definition other_app :: app_state where
  "other_app = \<lparr>openai_client = \<lparr>api_key = lit ''sk-another-key''\<rparr>\<rparr>"

definition empty_message_body :: "json option" where
  "empty_message_body = Some (JObject [(lit ''message'', JString [])])"

definition number_message_body :: "json option" where
  "number_message_body = Some (JObject [(lit ''message'', JNumber (Decimal 42 0))])"

definition STARTUP_ERROR :: py_exception where
  "STARTUP_ERROR =
     RuntimeError (lit ''OPENAI_API_KEY not set in environment. Please add it to your .env file.'')"

section \<open>Properties of \<open>strip\<close>\<close>

lemma strip_suffix:
  "dropWhile isspace s = strip s @ rev (takeWhile isspace (rev (dropWhile isspace s)))"
proof -
  let ?m = "dropWhile isspace s"
  have "takeWhile isspace (rev ?m) @ dropWhile isspace (rev ?m) = rev ?m"
    by (rule takeWhile_dropWhile_id)
  then have "rev (takeWhile isspace (rev ?m) @ dropWhile isspace (rev ?m)) = ?m"
    by (metis rev_rev_ident)
  then show ?thesis
    unfolding strip_def rev_append by (rule sym)
qed

lemma strip_decompose:
  "\<exists>pre suf. s = pre @ strip s @ suf \<and> list_all isspace pre \<and> list_all isspace suf"
proof -
  let ?a = "takeWhile isspace s" and ?m = "dropWhile isspace s"
  let ?b = "rev (takeWhile isspace (rev ?m))"
  have "?a @ ?m = s" by (rule takeWhile_dropWhile_id)
  then have "s = ?a @ strip s @ ?b"
    using strip_suffix [of s] by metis
  moreover have "list_all isspace ?a"
    unfolding list_all_iff by (meson set_takeWhileD)
  moreover have "list_all isspace ?b"
    unfolding list_all_iff set_rev by (meson set_takeWhileD)
  ultimately show ?thesis by blast
qed

lemma strip_no_leading_space: "strip s \<noteq> [] \<Longrightarrow> \<not> isspace (hd (strip s))"
proof -
  assume ne: "strip s \<noteq> []"
  let ?m = "dropWhile isspace s"
  from ne strip_suffix [of s] have "?m \<noteq> []" by (metis append_is_Nil_conv)
  then have "\<not> isspace (hd ?m)" by (rule hd_dropWhile)
  moreover have "hd ?m = hd (strip s)"
    using ne strip_suffix [of s] by (metis hd_append2)
  ultimately show ?thesis by simp
qed

lemma strip_no_trailing_space: "strip s \<noteq> [] \<Longrightarrow> \<not> isspace (last (strip s))"
proof -
  assume ne: "strip s \<noteq> []"
  let ?r = "dropWhile isspace (rev (dropWhile isspace s))"
  from ne have r: "?r \<noteq> []" by (simp add: strip_def)
  then have "\<not> isspace (hd ?r)" by (rule hd_dropWhile)
  moreover have "last (strip s) = hd ?r"
    unfolding strip_def using r by (simp only: last_rev)
  ultimately show ?thesis by simp
qed

lemma strip_all_space: "list_all isspace s \<Longrightarrow> strip s = []"
proof -
  assume "list_all isspace s"
  then have d: "dropWhile isspace s = []"
    by (simp only: dropWhile_eq_Nil_conv list_all_iff)
  show ?thesis by (simp only: strip_def d rev.simps dropWhile.simps)
qed

section \<open>The handler, case by case\<close>

lemma ask_assistant_raised:
  "create client (completion_kwargs request) = Inl e \<Longrightarrow>
   ask_assistant client create request =
     (Inl \<lparr>status_code = 502, detail = UPSTREAM_DETAIL, cause = Some e\<rparr>,
      [completion_kwargs request])"
  by (simp add: ask_assistant_def ask_assistant_try_def HTTP_502_BAD_GATEWAY_def)

lemma ask_assistant_no_choice:
  "create client (completion_kwargs request) = Inr response \<Longrightarrow> choices response = [] \<Longrightarrow>
   ask_assistant client create request =
     (Inl \<lparr>status_code = 502, detail = UPSTREAM_DETAIL, cause = Some IndexError\<rparr>,
      [completion_kwargs request])"
  by (simp add: ask_assistant_def ask_assistant_try_def HTTP_502_BAD_GATEWAY_def)

lemma ask_assistant_null_content:
  "create client (completion_kwargs request) = Inr response \<Longrightarrow> choices response = c # cs \<Longrightarrow>
   msg_content (choice_message c) = None \<Longrightarrow>
   ask_assistant client create request =
     (Inl \<lparr>status_code = 502, detail = UPSTREAM_DETAIL, cause = Some AttributeError\<rparr>,
      [completion_kwargs request])"
  by (simp add: ask_assistant_def ask_assistant_try_def HTTP_502_BAD_GATEWAY_def)

lemma ask_assistant_text:
  "create client (completion_kwargs request) = Inr response \<Longrightarrow> choices response = c # cs \<Longrightarrow>
   msg_content (choice_message c) = Some t \<Longrightarrow>
   ask_assistant client create request = (Inr \<lparr>answer = strip t\<rparr>, [completion_kwargs request])"
  by (simp add: ask_assistant_def ask_assistant_try_def)

lemma handle_valid:
  "validate_AssistantRequest b = Inr request \<Longrightarrow>
   handle app create (POST_assistant b) =
     (case ask_assistant (openai_client app) create request of
        (Inl h, calls) \<Rightarrow> (http_exception_response h, calls)
      | (Inr r, calls) \<Rightarrow> (\<lparr>status = 200, body = JSONBody (assistant_response_json r)\<rparr>, calls))"
  by (simp add: handle_def)

lemma ask_assistant_calls:
  "snd (ask_assistant client create request) = [completion_kwargs request]"
  by (simp add: ask_assistant_def ask_assistant_try_def Let_def
      split: sum.splits list.splits option.splits)

lemma ask_assistant_outcomes:
  "(\<exists>a. fst (ask_assistant client create request) = Inr \<lparr>answer = a\<rparr>) \<or>
   (\<exists>x. fst (ask_assistant client create request) =
          Inl \<lparr>status_code = 502, detail = UPSTREAM_DETAIL, cause = Some x\<rparr>)"
  by (simp add: ask_assistant_def ask_assistant_try_def HTTP_502_BAD_GATEWAY_def Let_def
      split: sum.splits list.splits option.splits)

lemma handle_raised:
  "validate_AssistantRequest b = Inr request \<Longrightarrow>
   fst (ask_assistant (openai_client app) create request) =
     Inl \<lparr>status_code = 502, detail = UPSTREAM_DETAIL, cause = x\<rparr> \<Longrightarrow>
   fst (handle app create (POST_assistant b)) = upstream_unavailable"
  by (cases "ask_assistant (openai_client app) create request")
    (simp add: handle_def http_exception_response_def)

lemma handle_returned:
  "validate_AssistantRequest b = Inr request \<Longrightarrow>
   fst (ask_assistant (openai_client app) create request) = Inr \<lparr>answer = a\<rparr> \<Longrightarrow>
   fst (handle app create (POST_assistant b)) =
     \<lparr>status = 200, body = JSONBody (JObject [(lit ''answer'', JString a)])\<rparr>"
  by (cases "ask_assistant (openai_client app) create request")
    (simp add: handle_def assistant_response_json_def)

lemma handle_calls:
  "validate_AssistantRequest b = Inr request \<Longrightarrow>
   snd (handle app create (POST_assistant b)) = [completion_kwargs request]"
  using ask_assistant_calls [of "openai_client app" create request]
  by (cases "ask_assistant (openai_client app) create request")
    (simp add: handle_def split: sum.splits)

lemma handle_rejected:
  "validate_AssistantRequest b = Inl err \<Longrightarrow>
   handle app create (POST_assistant b) = (\<lparr>status = 422, body = ValidationDetail err\<rparr>, [])"
  by (simp add: handle_def)

lemma message_field_object: "message_field j = Some v \<Longrightarrow> is_JObject j"
  by (cases j) simp_all

lemma validate_accepts_iff:
  "(validate_AssistantRequest b = Inr request) =
   (\<exists>j s. b = Some j \<and> message_field j = Some (JString s) \<and> request = \<lparr>message = s\<rparr>)"
proof (cases b)
  case None
  then show ?thesis by (simp add: validate_AssistantRequest_def)
next
  case (Some j)
  show ?thesis
  proof (cases "message_field j")
    case None
    with Some show ?thesis by (simp add: validate_AssistantRequest_def)
  next
    case (Some v)
    then have "is_JObject j" by (rule message_field_object)
    with Some \<open>b = Some j\<close> show ?thesis
      by (cases v) (auto simp: validate_AssistantRequest_def)
  qed
qed

lemma validate_rejects:
  "b = None \<or> (\<exists>j. b = Some j \<and>
      (message_field j = None \<or> (\<exists>v. message_field j = Some v \<and> \<not> is_JString v))) \<Longrightarrow>
   \<exists>err. validate_AssistantRequest b = Inl err"
proof -
  assume a: "b = None \<or> (\<exists>j. b = Some j \<and>
      (message_field j = None \<or> (\<exists>v. message_field j = Some v \<and> \<not> is_JString v)))"
  have "\<not> (\<exists>request. validate_AssistantRequest b = Inr request)"
    unfolding validate_accepts_iff using a by auto
  then show ?thesis by (cases "validate_AssistantRequest b") auto
qed

lemma validate_empty_message_body:
  "validate_AssistantRequest empty_message_body = Inr \<lparr>message = []\<rparr>"
  by (simp add: validate_AssistantRequest_def empty_message_body_def)

lemma module_init_with_key:
  "os_getenv env (lit ''OPENAI_API_KEY'') = Some k \<Longrightarrow> k \<noteq> [] \<Longrightarrow>
   module_init env = Inr \<lparr>openai_client = \<lparr>api_key = k\<rparr>\<rparr>"
  by (simp add: module_init_def)

lemma serve_with_key:
  "serve [lit ''OPENAI_API_KEY'' \<mapsto> lit ''sk-test-key''] create req =
     Inr (handle sample_app create req)"
proof -
  have "lit ''sk-test-key'' \<noteq> []" by (simp add: lit_def)
  then have "module_init [lit ''OPENAI_API_KEY'' \<mapsto> lit ''sk-test-key''] = Inr sample_app"
    unfolding sample_app_def by (intro module_init_with_key) (simp_all add: os_getenv_def)
  then show ?thesis by (simp add: serve_def)
qed

lemma validate_rules_body:
  "validate_AssistantRequest rules_body = Inr \<lparr>message = lit ''What are the rules of tic tac toe?''\<rparr>"
  by (simp add: validate_AssistantRequest_def rules_body_def lit_def)

section \<open>Claims\<close>

text \<open>
  C1. For a valid request, when the provider call returns a completion whose first
  choice has text content \<open>t\<close>, the handler returns an \<open>AssistantResponse\<close> whose answer
  is \<open>t.strip()\<close>, sent as \<open>200 {"answer": ...}\<close>; and \<open>t.strip()\<close> is \<open>t\<close> with its leading
  and trailing whitespace removed: \<open>t\<close> is the answer between two runs of whitespace,
  and the answer neither starts nor ends with whitespace.
\<close>

theorem ask_assistant_answer_is_stripped_first_choice:
  assumes "validate_AssistantRequest b = Inr request"
    and "create (openai_client app) (completion_kwargs request) = Inr response"
    and "choices response = c # cs"
    and "msg_content (choice_message c) = Some t"
  shows "fst (ask_assistant (openai_client app) create request) = Inr \<lparr>answer = strip t\<rparr> \<and>
         fst (handle app create (POST_assistant b)) =
           \<lparr>status = 200, body = JSONBody (JObject [(lit ''answer'', JString (strip t))])\<rparr> \<and>
         (\<exists>pre suf. t = pre @ strip t @ suf \<and> list_all isspace pre \<and> list_all isspace suf) \<and>
         (strip t = [] \<or> (\<not> isspace (hd (strip t)) \<and> \<not> isspace (last (strip t))))"
proof -
  have a: "ask_assistant (openai_client app) create request =
             (Inr \<lparr>answer = strip t\<rparr>, [completion_kwargs request])"
    using assms(2-4) by (rule ask_assistant_text)
  have "handle app create (POST_assistant b) =
          (\<lparr>status = 200, body = JSONBody (assistant_response_json \<lparr>answer = strip t\<rparr>)\<rparr>,
           [completion_kwargs request])"
    using handle_valid [OF assms(1), of app create] a by simp
  then have h: "fst (handle app create (POST_assistant b)) =
           \<lparr>status = 200, body = JSONBody (JObject [(lit ''answer'', JString (strip t))])\<rparr>"
    by (simp add: assistant_response_json_def)
  from a have "fst (ask_assistant (openai_client app) create request) = Inr \<lparr>answer = strip t\<rparr>"
    by simp
  with h strip_decompose [of t] strip_no_leading_space [of t] strip_no_trailing_space [of t]
  show ?thesis by blast
qed

theorem ask_assistant_answer_is_stripped_first_choice_witness:
  "fst (handle sample_app rules_provider (POST_assistant rules_body)) =
     \<lparr>status = 200,
      body = JSONBody (JObject [(lit ''answer'', JString (lit ''Tic tac toe is played on a 3x3 grid...''))])\<rparr>"
proof -
  let ?t = "lit ''  Tic tac toe is played on a 3x3 grid...  ''"
  have p: "rules_provider (openai_client sample_app)
             (completion_kwargs \<lparr>message = lit ''What are the rules of tic tac toe?''\<rparr>) =
           Inr (completion_of (Some ?t))"
    by (simp add: rules_provider_def)
  have c: "choices (completion_of (Some ?t)) = \<lparr>choice_message = \<lparr>msg_content = Some ?t\<rparr>\<rparr> # []"
    by (simp add: completion_of_def)
  have m: "msg_content (choice_message \<lparr>choice_message = \<lparr>msg_content = Some ?t\<rparr>\<rparr>) = Some ?t"
    by simp
  have s: "strip ?t = lit ''Tic tac toe is played on a 3x3 grid...''"
    by (simp add: strip_def lit_def isspace_def)
  show ?thesis
    using ask_assistant_answer_is_stripped_first_choice
      [where create = rules_provider and app = sample_app, OF validate_rules_body p c m] s
    by simp
qed

text \<open>
  C2. For a valid request, every failure of the provider call (an exception raised by the
  call, or a completion with an empty choice list) makes the handler raise the one
  \<open>HTTPException\<close> with status 502 and the fixed detail, which reaches the caller as
  \<open>502 {"detail": "Failed to get a response from the assistant. Please try again later."}\<close>;
  and the handler has two outcomes only: an \<open>AssistantResponse\<close> (status 200) or that error.
\<close>

theorem provider_failure_is_502:
  assumes "validate_AssistantRequest b = Inr request"
  shows "((create (openai_client app) (completion_kwargs request) = Inl e \<or>
           (\<exists>response. create (openai_client app) (completion_kwargs request) = Inr response \<and>
                       choices response = [])) \<longrightarrow>
          (\<exists>x. fst (ask_assistant (openai_client app) create request) =
                 Inl \<lparr>status_code = 502, detail = UPSTREAM_DETAIL, cause = Some x\<rparr>) \<and>
          fst (handle app create (POST_assistant b)) = upstream_unavailable) \<and>
         ((\<exists>a. fst (ask_assistant (openai_client app) create request) = Inr \<lparr>answer = a\<rparr>) \<or>
          (\<exists>x. fst (ask_assistant (openai_client app) create request) =
                 Inl \<lparr>status_code = 502, detail = UPSTREAM_DETAIL, cause = Some x\<rparr>)) \<and>
         ((\<exists>a. fst (handle app create (POST_assistant b)) =
                 \<lparr>status = 200, body = JSONBody (JObject [(lit ''answer'', JString a)])\<rparr>) \<or>
          fst (handle app create (POST_assistant b)) = upstream_unavailable)"
proof -
  let ?r = "fst (ask_assistant (openai_client app) create request)"
  let ?h = "fst (handle app create (POST_assistant b))"
  have fail: "?h = upstream_unavailable"
    if "?r = Inl \<lparr>status_code = 502, detail = UPSTREAM_DETAIL, cause = Some x\<rparr>" for x
    using assms that by (rule handle_raised)
  have ok: "?h = \<lparr>status = 200, body = JSONBody (JObject [(lit ''answer'', JString a)])\<rparr>"
    if "?r = Inr \<lparr>answer = a\<rparr>" for a
    using assms that by (rule handle_returned)
  have raised: "\<exists>x. ?r = Inl \<lparr>status_code = 502, detail = UPSTREAM_DETAIL, cause = Some x\<rparr>"
    if "create (openai_client app) (completion_kwargs request) = Inl e"
    using ask_assistant_raised [where create = create and client = "openai_client app", OF that]
    by simp
  have nochoice: "\<exists>x. ?r = Inl \<lparr>status_code = 502, detail = UPSTREAM_DETAIL, cause = Some x\<rparr>"
    if "create (openai_client app) (completion_kwargs request) = Inr response"
      and "choices response = []" for response
    using ask_assistant_no_choice
      [where create = create and client = "openai_client app", OF that]
    by simp
  have two: "(\<exists>a. ?r = Inr \<lparr>answer = a\<rparr>) \<or>
             (\<exists>x. ?r = Inl \<lparr>status_code = 502, detail = UPSTREAM_DETAIL, cause = Some x\<rparr>)"
    by (rule ask_assistant_outcomes)
  from two fail ok
  have two': "(\<exists>a. ?h = \<lparr>status = 200, body = JSONBody (JObject [(lit ''answer'', JString a)])\<rparr>) \<or>
              ?h = upstream_unavailable"
    by blast
  from raised nochoice fail
  have first: "(create (openai_client app) (completion_kwargs request) = Inl e \<or>
           (\<exists>response. create (openai_client app) (completion_kwargs request) = Inr response \<and>
                       choices response = [])) \<longrightarrow>
          (\<exists>x. ?r = Inl \<lparr>status_code = 502, detail = UPSTREAM_DETAIL, cause = Some x\<rparr>) \<and>
          ?h = upstream_unavailable"
    by blast
  from first two two' show ?thesis by (intro conjI)
qed

theorem provider_failure_is_502_witness:
  "fst (handle sample_app timeout_provider (POST_assistant rules_body)) = upstream_unavailable \<and>
   fst (handle sample_app empty_choices_provider (POST_assistant rules_body)) = upstream_unavailable"
proof -
  let ?kw = "completion_kwargs \<lparr>message = lit ''What are the rules of tic tac toe?''\<rparr>"
  have t: "timeout_provider (openai_client sample_app) ?kw =
             Inl (ProviderException (lit ''APITimeoutError'') (lit ''Request timed out.''))"
    by (simp add: timeout_provider_def)
  have n: "\<exists>response. empty_choices_provider (openai_client sample_app) ?kw = Inr response \<and>
             choices response = []"
    by (simp add: empty_choices_provider_def)
  from t
    provider_failure_is_502 [where create = timeout_provider and app = sample_app
      and e = "ProviderException (lit ''APITimeoutError'') (lit ''Request timed out.'')",
      OF validate_rules_body]
  have 1: "fst (handle sample_app timeout_provider (POST_assistant rules_body)) = upstream_unavailable"
    by blast
  from n
    provider_failure_is_502 [where create = empty_choices_provider and app = sample_app
      and e = IndexError, OF validate_rules_body]
  have 2: "fst (handle sample_app empty_choices_provider (POST_assistant rules_body)) =
             upstream_unavailable"
    by blast
  from 1 2 show ?thesis by (rule conjI)
qed

text \<open>
  C3. Whenever an exception occurs in the handler's \<open>try\<close> block, the response sent to
  the caller is one constant: status 502 and the body with the fixed detail string. It is
  the same for every exception (whatever its class and raw text), every configured API key
  and every request, so nothing of the exception or of the key reaches the caller; the
  exception is kept only as the cause of the \<open>HTTPException\<close>, which is not rendered.
\<close>

theorem failure_response_is_constant:
  assumes "validate_AssistantRequest b = Inr request"
    and "fst (ask_assistant_try (openai_client app) create request) = Inl e"
    and "validate_AssistantRequest b' = Inr request'"
    and "fst (ask_assistant_try (openai_client app') create' request') = Inl e'"
  shows "fst (handle app create (POST_assistant b)) = upstream_unavailable \<and>
         fst (handle app create (POST_assistant b)) = fst (handle app' create' (POST_assistant b')) \<and>
         fst (ask_assistant (openai_client app) create request) =
           Inl \<lparr>status_code = 502, detail = UPSTREAM_DETAIL, cause = Some e\<rparr>"
proof -
  have r: "fst (ask_assistant client c q) =
             Inl \<lparr>status_code = 502, detail = UPSTREAM_DETAIL, cause = Some x\<rparr>"
    if "fst (ask_assistant_try client c q) = Inl x" for client c q x
    using that
    by (cases "ask_assistant_try client c q")
      (simp add: ask_assistant_def HTTP_502_BAD_GATEWAY_def)
  have 1: "fst (handle app create (POST_assistant b)) = upstream_unavailable"
    using assms(1) r [OF assms(2)] by (rule handle_raised)
  have 2: "fst (handle app' create' (POST_assistant b')) = upstream_unavailable"
    using assms(3) r [OF assms(4)] by (rule handle_raised)
  from 1 2 r [OF assms(2)] show ?thesis by simp
qed

theorem failure_response_is_constant_witness:
  "fst (handle sample_app auth_error_provider (POST_assistant rules_body)) = upstream_unavailable \<and>
   fst (handle sample_app auth_error_provider (POST_assistant rules_body)) =
     fst (handle other_app timeout_provider (POST_assistant empty_message_body))"
proof -
  have 1: "fst (ask_assistant_try (openai_client sample_app) auth_error_provider
                  \<lparr>message = lit ''What are the rules of tic tac toe?''\<rparr>) =
             Inl (ProviderException (lit ''AuthenticationError'')
                    (lit ''Incorrect API key provided: '' @ lit ''sk-test-key''))"
    by (simp add: ask_assistant_try_def auth_error_provider_def sample_app_def)
  have 2: "fst (ask_assistant_try (openai_client other_app) timeout_provider \<lparr>message = []\<rparr>) =
             Inl (ProviderException (lit ''APITimeoutError'') (lit ''Request timed out.''))"
    by (simp add: ask_assistant_try_def timeout_provider_def)
  show ?thesis
    using failure_response_is_constant
      [where create = auth_error_provider and app = sample_app
         and create' = timeout_provider and app' = other_app,
       OF validate_rules_body 1 validate_empty_message_body 2]
    by blast
qed

text \<open>
  C4, as stated, fails: the request model puts no constraint on the length of \<open>message\<close>,
  so the body \<open>{"message": ""}\<close> is accepted, the handler runs and the provider is called
  with the empty user message.
\<close>

theorem empty_message_is_accepted:
  "validate_AssistantRequest empty_message_body = Inr \<lparr>message = []\<rparr> \<and>
   handle sample_app rules_provider (POST_assistant empty_message_body) =
     (\<lparr>status = 200,
       body = JSONBody (JObject [(lit ''answer'', JString (lit ''Tic tac toe is played on a 3x3 grid...''))])\<rparr>,
      [completion_kwargs \<lparr>message = []\<rparr>])"
proof -
  have "strip (lit ''  Tic tac toe is played on a 3x3 grid...  '') =
          lit ''Tic tac toe is played on a 3x3 grid...''"
    by (simp add: strip_def lit_def isspace_def)
  then show ?thesis
    by (simp add: validate_empty_message_body handle_def ask_assistant_def ask_assistant_try_def
        rules_provider_def completion_of_def assistant_response_json_def)
qed

text \<open>
  C4, amended. The request-schema boundary enforces that \<open>message\<close> is present and is a
  string, and nothing more: a body is accepted exactly when it is a JSON object whose
  \<open>message\<close> is a string (the empty string included), and the request handed to the
  handler carries that string; every body that is not accepted is answered with status 422
  and the validation detail, without a provider call.
\<close>

theorem schema_boundary_requires_string_message:
  "(validate_AssistantRequest b = Inr request) =
     (\<exists>j s. b = Some j \<and> message_field j = Some (JString s) \<and> request = \<lparr>message = s\<rparr>) \<and>
   (validate_AssistantRequest b = Inl err \<longrightarrow>
      handle app create (POST_assistant b) = (\<lparr>status = 422, body = ValidationDetail err\<rparr>, []))"
  using validate_accepts_iff [of b request] handle_rejected [of b err app create] by blast

theorem schema_boundary_requires_string_message_witness:
  "handle sample_app rules_provider (POST_assistant number_message_body) =
     (\<lparr>status = 422, body = ValidationDetail (NotAString (lit ''message''))\<rparr>, []) \<and>
   (\<exists>j s. empty_message_body = Some j \<and> message_field j = Some (JString s) \<and>
          \<lparr>message = []\<rparr> = \<lparr>message = s\<rparr>)"
proof -
  have v: "validate_AssistantRequest number_message_body = Inl (NotAString (lit ''message''))"
    by (simp add: validate_AssistantRequest_def number_message_body_def)
  from v validate_empty_message_body
    schema_boundary_requires_string_message
      [of number_message_body _ "NotAString (lit ''message'')" sample_app rules_provider]
    schema_boundary_requires_string_message [of empty_message_body "\<lparr>message = []\<rparr>"]
  show ?thesis by blast
qed

text \<open>
  C5. A request to \<open>/assistant\<close> with no usable body, with a body that has no \<open>message\<close>
  field (an object without the key, or not an object at all), or with a \<open>message\<close> that is
  not a string, is answered with status 422 and the provider is not called.
\<close>

theorem missing_or_mistyped_message_is_422:
  assumes "b = None \<or> (\<exists>j. b = Some j \<and>
      (message_field j = None \<or> (\<exists>v. message_field j = Some v \<and> \<not> is_JString v)))"
  shows "status (fst (handle app create (POST_assistant b))) = 422 \<and>
         snd (handle app create (POST_assistant b)) = []"
proof -
  from assms obtain err where "validate_AssistantRequest b = Inl err"
    using validate_rejects by blast
  then have "handle app create (POST_assistant b) =
               (\<lparr>status = 422, body = ValidationDetail err\<rparr>, [])"
    by (rule handle_rejected)
  then show ?thesis by simp
qed

theorem missing_or_mistyped_message_is_422_witness:
  "status (fst (handle sample_app rules_provider (POST_assistant (Some (JObject []))))) = 422 \<and>
   snd (handle sample_app rules_provider (POST_assistant (Some (JObject [])))) = [] \<and>
   status (fst (handle sample_app rules_provider (POST_assistant number_message_body))) = 422 \<and>
   snd (handle sample_app rules_provider (POST_assistant number_message_body)) = []"
proof -
  have 1: "Some (JObject []) = None \<or> (\<exists>j. Some (JObject []) = Some j \<and>
      (message_field j = None \<or> (\<exists>v. message_field j = Some v \<and> \<not> is_JString v)))"
    by simp
  have 2: "number_message_body = None \<or> (\<exists>j. number_message_body = Some j \<and>
      (message_field j = None \<or> (\<exists>v. message_field j = Some v \<and> \<not> is_JString v)))"
    by (simp add: number_message_body_def)
  from missing_or_mistyped_message_is_422 [OF 1, of sample_app rules_provider]
    missing_or_mistyped_message_is_422 [OF 2, of sample_app rules_provider]
  show ?thesis by blast
qed

text \<open>
  C6. If the API key variable is absent from the environment, or is the empty string,
  module initialisation raises \<open>RuntimeError\<close>: no application comes to exist, and no
  request, the health check included, gets a response.
\<close>

theorem missing_api_key_aborts_startup:
  assumes "os_getenv env (lit ''OPENAI_API_KEY'') = None \<or>
           os_getenv env (lit ''OPENAI_API_KEY'') = Some []"
  shows "module_init env = Inl STARTUP_ERROR \<and>
         serve env create req = Inl STARTUP_ERROR \<and>
         serve env create GET_root = Inl STARTUP_ERROR"
proof -
  from assms have "module_init env = Inl STARTUP_ERROR"
    by (auto simp: module_init_def STARTUP_ERROR_def)
  then show ?thesis by (simp add: serve_def)
qed

theorem missing_api_key_aborts_startup_witness:
  "serve Map.empty rules_provider GET_root = Inl STARTUP_ERROR \<and>
   serve [lit ''OPENAI_API_KEY'' \<mapsto> []] rules_provider (POST_assistant rules_body) =
     Inl STARTUP_ERROR"
proof -
  have 1: "os_getenv Map.empty (lit ''OPENAI_API_KEY'') = None \<or>
           os_getenv Map.empty (lit ''OPENAI_API_KEY'') = Some []"
    by (simp add: os_getenv_def)
  have 2: "os_getenv [lit ''OPENAI_API_KEY'' \<mapsto> []] (lit ''OPENAI_API_KEY'') = None \<or>
           os_getenv [lit ''OPENAI_API_KEY'' \<mapsto> []] (lit ''OPENAI_API_KEY'') = Some []"
    by (simp add: os_getenv_def)
  from missing_api_key_aborts_startup [OF 1, of rules_provider GET_root]
    missing_api_key_aborts_startup [OF 2, of rules_provider "POST_assistant rules_body"]
  show ?thesis by blast
qed

text \<open>
  C7. The health endpoint returns the dict \<open>{"message": "Healthy"}\<close>; a request to \<open>GET /\<close>
  is answered with status 200 and that payload, makes no provider call, and its result is
  the same whatever the application state and whatever the provider does.
\<close>

theorem health_check_fixed_payload:
  "health_check = JObject [(lit ''message'', JString (lit ''Healthy''))] \<and>
   handle app create GET_root =
     (\<lparr>status = 200, body = JSONBody (JObject [(lit ''message'', JString (lit ''Healthy''))])\<rparr>, []) \<and>
   handle app create GET_root = handle app' create' GET_root"
  by (simp add: handle_def health_check_def)

text \<open>
  C8. Every run of the handler makes exactly one provider call, with the model
  \<open>gpt-3.5-turbo\<close>, \<open>max_tokens\<close> 256, \<open>temperature\<close> 0.7 and two messages: the fixed
  system instruction, then a user message whose content is the request's \<open>message\<close>
  unchanged. The client, the provider's behaviour and the request change nothing else:
  the keyword arguments of two requests differ in the user message only.
\<close>

theorem provider_call_parameters:
  "snd (ask_assistant client create request) =
     [\<lparr>model = lit ''gpt-3.5-turbo'',
       messages =
         [\<lparr>role = lit ''system'',
           content = lit ''You are the helpful AI assistant for an online Tic Tac Toe game. Answer rules, strategies, and give helpful, friendly advice for the game.''\<rparr>,
          \<lparr>role = lit ''user'', content = message request\<rparr>],
       max_tokens = 256,
       temperature = Decimal 7 (- 1)\<rparr>] \<and>
   model (completion_kwargs request) = model (completion_kwargs request') \<and>
   max_tokens (completion_kwargs request) = max_tokens (completion_kwargs request') \<and>
   temperature (completion_kwargs request) = temperature (completion_kwargs request') \<and>
   hd (messages (completion_kwargs request)) = hd (messages (completion_kwargs request')) \<and>
   (validate_AssistantRequest b = Inr request \<longrightarrow>
      snd (handle app create (POST_assistant b)) = snd (ask_assistant client create request))"
proof -
  have "snd (ask_assistant client create request) = [completion_kwargs request]"
    by (rule ask_assistant_calls)
  moreover have "validate_AssistantRequest b = Inr request \<longrightarrow>
      snd (handle app create (POST_assistant b)) = [completion_kwargs request]"
    using handle_calls [of b request app create] by blast
  ultimately show ?thesis by (simp add: completion_kwargs_def)
qed

theorem provider_call_parameters_witness:
  "snd (handle sample_app timeout_provider (POST_assistant rules_body)) =
     [\<lparr>model = lit ''gpt-3.5-turbo'',
       messages =
         [\<lparr>role = lit ''system'',
           content = lit ''You are the helpful AI assistant for an online Tic Tac Toe game. Answer rules, strategies, and give helpful, friendly advice for the game.''\<rparr>,
          \<lparr>role = lit ''user'', content = lit ''What are the rules of tic tac toe?''\<rparr>],
       max_tokens = 256,
       temperature = Decimal 7 (- 1)\<rparr>]"
  using provider_call_parameters
    [of "openai_client sample_app" timeout_provider
        "\<lparr>message = lit ''What are the rules of tic tac toe?''\<rparr>" _ rules_body sample_app]
    validate_rules_body
  by simp

text \<open>
  C9. When the provider call returns a completion whose first choice has content \<open>None\<close>,
  \<open>.strip()\<close> raises \<open>AttributeError\<close> inside the \<open>try\<close> block: the handler raises the 502
  \<open>HTTPException\<close> (with that error as its cause) and the caller gets the
  upstream-unavailable response, not a success.
\<close>

theorem null_content_is_502:
  assumes "validate_AssistantRequest b = Inr request"
    and "create (openai_client app) (completion_kwargs request) = Inr response"
    and "choices response = c # cs"
    and "msg_content (choice_message c) = None"
  shows "fst (ask_assistant_try (openai_client app) create request) = Inl AttributeError \<and>
         fst (ask_assistant (openai_client app) create request) =
           Inl \<lparr>status_code = 502, detail = UPSTREAM_DETAIL, cause = Some AttributeError\<rparr> \<and>
         fst (handle app create (POST_assistant b)) = upstream_unavailable"
proof -
  have t: "fst (ask_assistant_try (openai_client app) create request) = Inl AttributeError"
    using assms(2-4) by (simp add: ask_assistant_try_def)
  have a: "fst (ask_assistant (openai_client app) create request) =
             Inl \<lparr>status_code = 502, detail = UPSTREAM_DETAIL, cause = Some AttributeError\<rparr>"
    using ask_assistant_null_content
      [where create = create and client = "openai_client app", OF assms(2-4)]
    by simp
  have "fst (handle app create (POST_assistant b)) = upstream_unavailable"
    using assms(1) a by (rule handle_raised)
  with t a show ?thesis by simp
qed

theorem null_content_is_502_witness:
  "fst (handle sample_app null_content_provider (POST_assistant rules_body)) = upstream_unavailable"
proof -
  have p: "null_content_provider (openai_client sample_app)
             (completion_kwargs \<lparr>message = lit ''What are the rules of tic tac toe?''\<rparr>) =
           Inr (completion_of None)"
    by (simp add: null_content_provider_def)
  have c: "choices (completion_of None) = \<lparr>choice_message = \<lparr>msg_content = None\<rparr>\<rparr> # []"
    by (simp add: completion_of_def)
  have m: "msg_content (choice_message \<lparr>choice_message = \<lparr>msg_content = None\<rparr>\<rparr>) = None"
    by simp
  show ?thesis
    using null_content_is_502
      [where create = null_content_provider and app = sample_app, OF validate_rules_body p c m]
    by blast
qed

text \<open>
  C10. When the first choice's content is a string of whitespace only (the empty string
  included), the handler returns an \<open>AssistantResponse\<close> with the empty answer, and the
  caller gets \<open>200 {"answer": ""}\<close>: the empty answer is not turned into an error.
\<close>

theorem blank_content_gives_empty_answer:
  assumes "validate_AssistantRequest b = Inr request"
    and "create (openai_client app) (completion_kwargs request) = Inr response"
    and "choices response = c # cs"
    and "msg_content (choice_message c) = Some t"
    and "list_all isspace t"
  shows "fst (ask_assistant (openai_client app) create request) = Inr \<lparr>answer = []\<rparr> \<and>
         fst (handle app create (POST_assistant b)) =
           \<lparr>status = 200, body = JSONBody (JObject [(lit ''answer'', JString [])])\<rparr>"
proof -
  have s: "strip t = []"
    using assms(5) by (rule strip_all_space)
  have a: "fst (ask_assistant (openai_client app) create request) = Inr \<lparr>answer = []\<rparr>"
    using ask_assistant_text
      [where create = create and client = "openai_client app", OF assms(2-4)] s
    by simp
  have "fst (handle app create (POST_assistant b)) =
          \<lparr>status = 200, body = JSONBody (JObject [(lit ''answer'', JString [])])\<rparr>"
    using assms(1) a by (rule handle_returned)
  with a show ?thesis by simp
qed

theorem blank_content_gives_empty_answer_witness:
  "fst (handle sample_app blank_provider (POST_assistant rules_body)) =
     \<lparr>status = 200, body = JSONBody (JObject [(lit ''answer'', JString [])])\<rparr>"
proof -
  let ?t = "lit '' '' @ [0x0A, 0x3000, 0x09]"
  have p: "blank_provider (openai_client sample_app)
             (completion_kwargs \<lparr>message = lit ''What are the rules of tic tac toe?''\<rparr>) =
           Inr (completion_of (Some ?t))"
    by (simp add: blank_provider_def)
  have c: "choices (completion_of (Some ?t)) = \<lparr>choice_message = \<lparr>msg_content = Some ?t\<rparr>\<rparr> # []"
    by (simp add: completion_of_def)
  have m: "msg_content (choice_message \<lparr>choice_message = \<lparr>msg_content = Some ?t\<rparr>\<rparr>) = Some ?t"
    by simp
  have w: "list_all isspace ?t"
    by (simp add: lit_def isspace_def)
  show ?thesis
    using blank_content_gives_empty_answer
      [where create = blank_provider and app = sample_app, OF validate_rules_body p c m w]
    by blast
qed

end
